theory Spec2Isabelle
  imports Complex_Main
begin

section \<open>Python strings\<close>

text \<open>
  The three scripts of belux-cdm work on text lines. A Python \<open>str\<close> is modelled as a
  \<open>string\<close> (a list of 8-bit characters), so the model covers text in the Latin-1 range;
  on that range \<open>str.isspace\<close> holds for the twelve characters below, \<open>\d\<close> and
  \<open>int\<close> accept the ten ASCII digits only, and \<open>str.upper\<close> maps no character
  other than the ASCII letter itself and its lower-case form to \<open>N\<close>, \<open>S\<close>, \<open>E\<close>
  or \<open>W\<close>.
\<close>

definition is_space :: "char \<Rightarrow> bool" where
  "is_space c \<longleftrightarrow> c \<in> set [CHR 0x09, CHR 0x0A, CHR 0x0B, CHR 0x0C, CHR 0x0D,
                           CHR 0x1C, CHR 0x1D, CHR 0x1E, CHR 0x1F, CHR 0x20,
                           CHR 0x85, CHR 0xA0]"

definition lstrip :: "string \<Rightarrow> string" where
  "lstrip s = dropWhile is_space s"

definition rstrip :: "string \<Rightarrow> string" where
  "rstrip s = rev (dropWhile is_space (rev s))"

definition strip :: "string \<Rightarrow> string" where
  "strip s = rstrip (lstrip s)"

text \<open>\<open>s.rstrip("\n")\<close>: every trailing line feed is removed.\<close>

definition rstrip_nl :: "string \<Rightarrow> string" where
  "rstrip_nl s = rev (dropWhile (\<lambda>c. c = CHR 0x0A) (rev s))"

text \<open>\<open>s.split(sep)\<close> with a one-character separator: never an empty list.\<close>

fun split_on :: "char \<Rightarrow> string \<Rightarrow> string list" where
  "split_on sep [] = [[]]"
| "split_on sep (c # cs) =
     (if c = sep then [] # split_on sep cs
      else (case split_on sep cs of [] \<Rightarrow> [[c]] | p # ps \<Rightarrow> (c # p) # ps))"

text \<open>\<open>sep.join(parts)\<close>.\<close>

fun join :: "string \<Rightarrow> string list \<Rightarrow> string" where
  "join sep [] = []"
| "join sep [p] = p"
| "join sep (p # q # ps) = p @ sep @ join sep (q # ps)"

definition is_digit :: "char \<Rightarrow> bool" where
  "is_digit c \<longleftrightarrow> c \<in> set ''0123456789''"

definition digit_val :: "char \<Rightarrow> int" where
  "digit_val c = of_char c - 48"

text \<open>The number that a text of decimal digits denotes.\<close>

definition int_of_digits :: "string \<Rightarrow> int" where
  "int_of_digits ds = foldl (\<lambda>a c. 10 * a + digit_val c) 0 ds"

definition to_lower :: "char \<Rightarrow> char" where
  "to_lower c =
     (case map_of (zip ''ABCDEFGHIJKLMNOPQRSTUVWXYZ'' ''abcdefghijklmnopqrstuvwxyz'') c of
        Some d \<Rightarrow> d
      | None \<Rightarrow> c)"

definition digit_char :: "int \<Rightarrow> char" where
  "digit_char d = ''0123456789'' ! nat d"

text \<open>\<open>str(n)\<close> for an integer \<open>n \<ge> 0\<close>.\<close>

function digits_of :: "int \<Rightarrow> string" where
  "digits_of n =
     (if n < 10 then [digit_char n] else digits_of (n div 10) @ [digit_char (n mod 10)])"
  by pat_completeness auto
termination
  by (relation "measure nat") auto

declare digits_of.simps [simp del]

text \<open>
  \<open>f"{i:0wd}"\<close>: the decimal digits of \<open>i\<close>, zero-padded on the left to \<open>w\<close>
  characters; a minus sign comes first and counts in the width.
\<close>

definition zero_pad :: "nat \<Rightarrow> string \<Rightarrow> string" where
  "zero_pad w ds = replicate (w - length ds) CHR ''0'' @ ds"

definition format_d :: "nat \<Rightarrow> int \<Rightarrow> string" where
  "format_d w i =
     (if i < 0 then CHR ''-'' # zero_pad (w - 1) (digits_of (- i))
      else zero_pad w (digits_of i))"

section \<open>Python floats: IEEE-754 binary64\<close>

text \<open>
  A Python \<open>float\<close> is a binary64 value. The finite ones are modelled by the rational
  number they denote, with the negative zero, the infinities and the NaN apart; every
  arithmetic operation of the scripts is the exact operation followed by \<open>fl\<close>, the
  rounding to the nearest binary64 value, ties to even (the only rounding mode CPython
  uses).
\<close>

datatype pyfloat = Finite rat | NegZero | PosInf | NegInf | NaN

text \<open>The number of binary digits of a positive integer (\<open>int.bit_length\<close>).\<close>

function bit_length :: "int \<Rightarrow> nat" where
  "bit_length n = (if n \<le> 0 then 0 else Suc (bit_length (n div 2)))"
  by pat_completeness auto
termination
  by (relation "measure nat") auto

declare bit_length.simps [simp del]

text \<open>The binary exponent of a non-zero rational: the floor of its logarithm to base 2.\<close>

definition ilog2 :: "rat \<Rightarrow> int" where
  "ilog2 x =
     (if 1 \<le> \<bar>x\<bar> then int (bit_length \<lfloor>\<bar>x\<bar>\<rfloor>) - 1
      else - int (bit_length (\<lceil>1 / \<bar>x\<bar>\<rceil> - 1)))"

definition round_half_even :: "rat \<Rightarrow> int" where
  "round_half_even x =
     (let f = \<lfloor>x\<rfloor>; d = x - of_int f
      in if d < 1 / 2 then f else if 1 / 2 < d then f + 1
         else if even f then f else f + 1)"

text \<open>
  Rounding to binary64: 53 significant bits, the exponent of the last place never below
  \<open>-1074\<close> (the subnormal range). The result is finite here; a result of magnitude
  \<open>2 ^ 1024\<close> or more is the overflow case, tested by \<open>overflows\<close>.
\<close>

definition fl :: "rat \<Rightarrow> rat" where
  "fl x =
     (if x = 0 then 0
      else let e = max (ilog2 x - 52) (- 1074)
           in of_int (round_half_even (x / 2 powi e)) * 2 powi e)"

definition overflows :: "rat \<Rightarrow> bool" where
  "overflows x \<longleftrightarrow> 2 ^ 1024 \<le> \<bar>fl x\<bar>"

definition is_double :: "rat \<Rightarrow> bool" where
  "is_double x \<longleftrightarrow> fl x = x \<and> \<bar>x\<bar> < 2 ^ 1024"

text \<open>Rounding a signed magnitude, as the string conversion does.\<close>

definition make_float :: "bool \<Rightarrow> rat \<Rightarrow> pyfloat" where
  "make_float neg m =
     (let r = fl m
      in if 2 ^ 1024 \<le> r then (if neg then NegInf else PosInf)
         else if r = 0 then (if neg then NegZero else Finite 0)
         else Finite (if neg then - r else r))"

text \<open>The float operators on finite operands.\<close>

definition fadd :: "rat \<Rightarrow> rat \<Rightarrow> rat" where
  "fadd a b = fl (a + b)"

definition fsub :: "rat \<Rightarrow> rat \<Rightarrow> rat" where
  "fsub a b = fl (a - b)"

definition fmul :: "rat \<Rightarrow> rat \<Rightarrow> rat" where
  "fmul a b = fl (a * b)"

definition fdiv :: "rat \<Rightarrow> rat \<Rightarrow> rat" where
  "fdiv a b = fl (a / b)"

text \<open>\<open>int(x)\<close> truncates towards zero; \<open>round(x)\<close> rounds half to even.\<close>

definition trunc :: "rat \<Rightarrow> int" where
  "trunc x = (if 0 \<le> x then \<lfloor>x\<rfloor> else \<lceil>x\<rceil>)"

text \<open>
  \<open>round(x, n)\<close> for \<open>n \<ge> 0\<close>: CPython prints \<open>x\<close> with \<open>n\<close> decimals, correctly
  rounded (half to even on the exact binary value), and reads the decimal back.
\<close>

definition py_round :: "rat \<Rightarrow> nat \<Rightarrow> rat" where
  "py_round x n = fl (of_int (round_half_even (x * 10 ^ n)) / 10 ^ n)"

text \<open>\<open>value >= 0\<close> and \<open>abs(value)\<close>.\<close>

fun fge0 :: "pyfloat \<Rightarrow> bool" where
  "fge0 (Finite r) = (0 \<le> r)"
| "fge0 NegZero = True"
| "fge0 PosInf = True"
| "fge0 NegInf = False"
| "fge0 NaN = False"

fun fabs :: "pyfloat \<Rightarrow> pyfloat" where
  "fabs (Finite r) = Finite \<bar>r\<bar>"
| "fabs NegZero = Finite 0"
| "fabs PosInf = PosInf"
| "fabs NegInf = PosInf"
| "fabs NaN = NaN"

section \<open>Reading numbers from text\<close>

text \<open>
  \<open>float(s)\<close> and \<open>int(s)\<close> first trim white space, then accept single underscores
  between digits (CPython's \<open>_Py_string_to_number_with_underscores\<close>: an underscore
  must follow a digit and be followed by one), and then read the text that is left.
\<close>

fun underscores_ok :: "char \<Rightarrow> string \<Rightarrow> bool" where
  "underscores_ok prev [] = (prev \<noteq> CHR ''_'')"
| "underscores_ok prev (c # cs) =
     ((if c = CHR ''_'' then is_digit prev else (prev = CHR ''_'' \<longrightarrow> is_digit c))
      \<and> underscores_ok c cs)"

definition drop_underscores :: "string \<Rightarrow> string option" where
  "drop_underscores s =
     (if underscores_ok (CHR 0x00) s then Some (filter (\<lambda>c. c \<noteq> CHR ''_'') s) else None)"

text \<open>An optional sign: whether it is a minus, and the text after it.\<close>

fun take_sign :: "string \<Rightarrow> bool \<times> string" where
  "take_sign [] = (False, [])"
| "take_sign (c # cs) =
     (if c = CHR ''-'' then (True, cs) else if c = CHR ''+'' then (False, cs)
      else (False, c # cs))"

text \<open>
  \<open>int(s)\<close>, base 10: white space, sign, digits. \<open>None\<close> is the \<open>ValueError\<close>.
  (CPython 3.11 and later also refuse more than 4300 digits; the model has no such limit.)
\<close>

definition py_int :: "string \<Rightarrow> int option" where
  "py_int s =
     (let (neg, body) = take_sign (strip s)
      in case drop_underscores body of
           None \<Rightarrow> None
         | Some ds \<Rightarrow>
             if ds \<noteq> [] \<and> list_all is_digit ds
             then Some (if neg then - int_of_digits ds else int_of_digits ds)
             else None)"

text \<open>
  The exponent part of a decimal number: \<open>e\<close> or \<open>E\<close>, an optional sign and at least
  one digit, up to the end of the text; the empty text is the exponent 0.
\<close>

definition parse_exponent :: "string \<Rightarrow> int option" where
  "parse_exponent s =
     (case s of
        [] \<Rightarrow> Some 0
      | c # cs \<Rightarrow>
          if c = CHR ''e'' \<or> c = CHR ''E''
          then (let (neg, ds) = take_sign cs
                in if ds \<noteq> [] \<and> list_all is_digit ds
                   then Some (if neg then - int_of_digits ds else int_of_digits ds)
                   else None)
          else None)"

text \<open>
  The mantissa and exponent of the decimal text after the sign: digits, at most one point,
  digits (one digit at least), and the exponent part. The value is
  \<open>mantissa * 10 powi exponent\<close>.
\<close>

definition parse_decimal :: "string \<Rightarrow> (int \<times> int) option" where
  "parse_decimal s =
     (let ip = takeWhile is_digit s; r1 = dropWhile is_digit s;
          has_point = (r1 \<noteq> [] \<and> hd r1 = CHR ''.'');
          r2 = (if has_point then tl r1 else r1);
          fp = (if has_point then takeWhile is_digit r2 else []);
          r3 = (if has_point then dropWhile is_digit r2 else r2)
      in if ip = [] \<and> fp = [] then None
         else case parse_exponent r3 of
                None \<Rightarrow> None
              | Some ex \<Rightarrow> Some (int_of_digits (ip @ fp), ex - int (length fp)))"

text \<open>
  \<open>float(s)\<close>: \<open>inf\<close>, \<open>infinity\<close> and \<open>nan\<close> in any case, or a decimal number, which
  is rounded to the nearest double and overflows to an infinity. \<open>None\<close> is the
  \<open>ValueError\<close>.
\<close>

definition py_float :: "string \<Rightarrow> pyfloat option" where
  "py_float s =
     (case drop_underscores (strip s) of
        None \<Rightarrow> None
      | Some t \<Rightarrow>
          (let (neg, body) = take_sign t; low = map to_lower body
           in if low = ''inf'' \<or> low = ''infinity'' then Some (if neg then NegInf else PosInf)
              else if low = ''nan'' then Some NaN
              else case parse_decimal body of
                     None \<Rightarrow> None
                   | Some (m, ex) \<Rightarrow> Some (make_float neg (of_int m * 10 powi ex))))"

section \<open>The format detector of convert.py\<close>

text \<open>
  \<open>DMS_RE\<close> is \<open>^[NSEW]\d{3}\.\d{2}\.\d{2}\.\d{3}$\<close>, case-insensitive, matched against
  the trimmed token: fourteen characters.
\<close>

definition dms_re_match :: "string \<Rightarrow> bool" where
  "dms_re_match s \<longleftrightarrow>
     length s = 14 \<and> s ! 0 \<in> set ''NSEWnsew'' \<and>
     is_digit (s ! 1) \<and> is_digit (s ! 2) \<and> is_digit (s ! 3) \<and> s ! 4 = CHR ''.'' \<and>
     is_digit (s ! 5) \<and> is_digit (s ! 6) \<and> s ! 7 = CHR ''.'' \<and>
     is_digit (s ! 8) \<and> is_digit (s ! 9) \<and> s ! 10 = CHR ''.'' \<and>
     is_digit (s ! 11) \<and> is_digit (s ! 12) \<and> is_digit (s ! 13)"

definition looks_like_dms :: "string \<Rightarrow> bool" where
  "looks_like_dms s = dms_re_match (strip s)"

definition looks_like_decimal :: "string \<Rightarrow> bool" where
  "looks_like_decimal s = (py_float (strip s) \<noteq> None)"

text \<open>\<open>parts[2:10]\<close>, and the two counters of \<open>detect_mode\<close>.\<close>

definition coord_fields :: "string list \<Rightarrow> string list" where
  "coord_fields parts = take 8 (drop 2 parts)"

definition dms_hits :: "string list \<Rightarrow> nat" where
  "dms_hits parts = length (filter looks_like_dms (coord_fields parts))"

definition dec_hits :: "string list \<Rightarrow> nat" where
  "dec_hits parts = length (filter looks_like_decimal (coord_fields parts))"

text \<open>\<open>Some True\<close> is reverse (DMS to decimal), \<open>Some False\<close> forward, \<open>None\<close> undecided.\<close>

definition detect_mode :: "string list \<Rightarrow> bool option" where
  "detect_mode parts =
     (if dms_hits parts = 8 \<and> dec_hits parts = 0 then Some True
      else if dec_hits parts = 8 \<and> dms_hits parts = 0 then Some False
      else if dms_hits parts > dec_hits parts \<and> dms_hits parts \<ge> 4 then Some True
      else if dec_hits parts > dms_hits parts \<and> dec_hits parts \<ge> 4 then Some False
      else None)"

section \<open>Errors\<close>

text \<open>
  Every exception the scripts raise, one constructor for each \<open>raise\<close> statement and
  for each failing built-in. All are \<open>ValueError\<close>s, apart from the two
  \<open>OverflowError\<close>s.
\<close>

datatype error =
    Too_Short            \<comment> \<open>\<open>Too short for DMS\<close>\<close>
  | Bad_Hemisphere       \<comment> \<open>\<open>Latitude must start with N or S\<close>, \<open>Longitude must start with E or W\<close>\<close>
  | Bad_Shape            \<comment> \<open>\<open>DMS must look like HDDD.MM.SS.sss\<close>\<close>
  | Non_Numeric          \<comment> \<open>\<open>Non-numeric DMS components\<close>, \<open>Non-numeric coordinate value(s)\<close>\<close>
  | Minutes_Range        \<comment> \<open>\<open>Minutes out of range\<close>\<close>
  | Seconds_Range        \<comment> \<open>\<open>Seconds out of range\<close>\<close>
  | Millis_Range         \<comment> \<open>\<open>Milliseconds out of range\<close>\<close>
  | Field_Count          \<comment> \<open>\<open>Unexpected field count\<close>, \<open>too few fields\<close>\<close>
  | Odd_Coordinates      \<comment> \<open>\<open>Odd number of coordinate fields\<close>\<close>
  | Bad_Token_Count      \<comment> \<open>\<open>Bad coordinate token count on line\<close>\<close>
  | Float_Syntax         \<comment> \<open>\<open>float(s)\<close> on text that is no number\<close>
  | Int_Of_NaN           \<comment> \<open>\<open>int(x)\<close> on a NaN\<close>
  | Int_Of_Infinity      \<comment> \<open>\<open>int(x)\<close> on an infinity: \<open>OverflowError\<close>\<close>
  | Int_Too_Large        \<comment> \<open>an \<open>int\<close> too large to convert to \<open>float\<close>: \<open>OverflowError\<close>\<close>
  | Bad_Precision        \<comment> \<open>a format specification with a negative precision\<close>

section \<open>geojson.py\<close>

datatype geometry =
    Polygon "(pyfloat \<times> pyfloat) list list"
  | LineString "(pyfloat \<times> pyfloat) list"

datatype taxitime = Taxi_Int int | Taxi_Float pyfloat | Taxi_Str string

record feature =
  geometry :: geometry
  airport :: string
  runway :: string
  taxitime :: taxitime
  remarks :: "string list option"
  raw_line :: string

definition to_float :: "string \<Rightarrow> pyfloat option" where
  "to_float s = py_float (strip s)"

text \<open>\<open>line.startswith("#")\<close>.\<close>

definition starts_with_hash :: "string \<Rightarrow> bool" where
  "starts_with_hash s \<longleftrightarrow> s \<noteq> [] \<and> hd s = CHR ''#''"

text \<open>
  The remarks are the last field of \<open>rest\<close> when it holds a comma; they are taken off.
\<close>

definition split_remarks :: "string list \<Rightarrow> string list option \<times> string list" where
  "split_remarks rest =
     (if rest \<noteq> [] \<and> CHR '','' \<in> set (last rest)
      then (Some (filter (\<lambda>r. r \<noteq> []) (map strip (split_on (CHR '','') (last rest)))),
            butlast rest)
      else (None, rest))"

text \<open>
  The loop over the coordinate tokens, two at a time: latitude then longitude in the
  text, \<open>(lon, lat)\<close> in the result.
\<close>

fun coord_pairs :: "string list \<Rightarrow> error + (pyfloat \<times> pyfloat) list" where
  "coord_pairs (a # b # ts) =
     (case to_float a of
        None \<Rightarrow> Inl Float_Syntax
      | Some lat \<Rightarrow>
          (case to_float b of
             None \<Rightarrow> Inl Float_Syntax
           | Some lon \<Rightarrow>
               (case coord_pairs ts of
                  Inl e \<Rightarrow> Inl e
                | Inr cs \<Rightarrow> Inr ((lon, lat) # cs))))"
| "coord_pairs ts = Inr []"

definition choose_geometry :: "(pyfloat \<times> pyfloat) list \<Rightarrow> geometry" where
  "choose_geometry coords =
     (if length coords = 4 then Polygon [coords @ [coords ! 0]]
      else if length coords = 2 then LineString coords
      else LineString coords)"

definition parse_taxitime :: "string \<Rightarrow> taxitime" where
  "parse_taxitime t =
     (case py_int t of
        Some i \<Rightarrow> Taxi_Int i
      | None \<Rightarrow> (case py_float t of Some x \<Rightarrow> Taxi_Float x | None \<Rightarrow> Taxi_Str t))"

text \<open>\<open>Inr None\<close> is the line that is skipped, \<open>Inl\<close> the \<open>ValueError\<close>.\<close>

definition parse_line :: "string \<Rightarrow> error + feature option" where
  "parse_line line0 =
     (let line = strip line0
      in if line = [] \<or> starts_with_hash line then Inr None
         else let parts = split_on (CHR '':'') line
              in if length parts < 3 then Inr None
                 else let (rem, rest) = split_remarks (drop 2 parts)
                      in if rest = [] then Inr None
                         else let taxitime_str = strip (last rest);
                                  coord_tokens = butlast rest
                              in if length coord_tokens < 4 \<or> length coord_tokens mod 2 \<noteq> 0
                                 then Inl Bad_Token_Count
                                 else case coord_pairs coord_tokens of
                                        Inl e \<Rightarrow> Inl e
                                      | Inr coords \<Rightarrow>
                                          Inr (Some \<lparr>geometry = choose_geometry coords,
                                                     airport = strip (parts ! 0),
                                                     runway = strip (parts ! 1),
                                                     taxitime = parse_taxitime taxitime_str,
                                                     remarks = rem,
                                                     raw_line = line\<rparr>))"

text \<open>
  \<open>convert_file\<close> over the lines of the input (what \<open>splitlines\<close> returns): the
  features in order, or the number of the first line that fails with its error.
\<close>

fun convert_from :: "nat \<Rightarrow> string list \<Rightarrow> (nat \<times> error) + feature list" where
  "convert_from lineno [] = Inr []"
| "convert_from lineno (l # ls) =
     (case parse_line l of
        Inl e \<Rightarrow> Inl (lineno, e)
      | Inr feat \<Rightarrow>
          (case convert_from (Suc lineno) ls of
             Inl e \<Rightarrow> Inl e
           | Inr fs \<Rightarrow> Inr (case feat of None \<Rightarrow> fs | Some f \<Rightarrow> f # fs)))"

definition convert_file :: "string list \<Rightarrow> (nat \<times> error) + feature list" where
  "convert_file lines = convert_from 1 lines"

text \<open>The local variables of \<open>parse_line\<close>, as functions of the line.\<close>

definition line_parts :: "string \<Rightarrow> string list" where
  "line_parts line = split_on (CHR '':'') (strip line)"

definition line_rest :: "string \<Rightarrow> string list" where
  "line_rest line = snd (split_remarks (drop 2 (line_parts line)))"

definition coord_tokens_of :: "string \<Rightarrow> string list" where
  "coord_tokens_of line = butlast (line_rest line)"

section \<open>Decimal degrees to DMS\<close>

text \<open>
  An \<open>int\<close> operand of a float operator is converted to the nearest double first, and
  raises \<open>OverflowError\<close> when it is too large. \<open>int_as_float\<close> is the conversion
  where the integer is known to be in range; \<open>float_of_int\<close> is the checked one.
\<close>

definition int_as_float :: "int \<Rightarrow> rat" where
  "int_as_float i = fl (of_int i)"

definition float_of_int :: "int \<Rightarrow> error + rat" where
  "float_of_int i = (if overflows (of_int i) then Inl Int_Too_Large else Inr (int_as_float i))"

text \<open>
  \<open>decimal_to_dms_hem\<close> has the same text in \<open>convert.py\<close> and in
  \<open>convert-coordinates.py\<close>. It is embedded in two steps. \<open>dms_fields\<close> is the
  arithmetic on \<open>v = abs(value)\<close> up to the first carry: degrees, minutes, and seconds
  rounded to three decimals. The integers \<open>deg\<close> and \<open>minute\<close> come from \<open>int()\<close> of a
  float of at least their size, so their conversion back to float cannot overflow.
\<close>

definition dms_fields :: "rat \<Rightarrow> int \<times> int \<times> rat" where
  "dms_fields v =
     (let deg = trunc v;
          minutes_full = fmul (fsub v (int_as_float deg)) 60;
          minute = trunc minutes_full;
          seconds = fmul (fsub minutes_full (int_as_float minute)) 60;
          seconds = py_round seconds 3;
          (seconds, minute) = (if 60 \<le> seconds then (fsub seconds 60, minute + 1)
                               else (seconds, minute));
          (minute, deg) = (if 60 \<le> minute then (minute - 60, deg + 1) else (minute, deg))
      in (deg, minute, seconds))"

text \<open>
  \<open>dms_text\<close> is the rest of the function: the two strings for degrees and minutes, the
  split of the seconds, the branch for a millisecond part of 1000, and the result. As in the
  source, \<open>deg_str\<close> and \<open>min_str\<close> are assigned again only in the innermost branch.
\<close>

definition dms_text :: "string \<Rightarrow> int \<Rightarrow> int \<Rightarrow> rat \<Rightarrow> string" where
  "dms_text hem deg minute seconds =
     (let deg_str = format_d 3 deg;
          min_str = format_d 2 minute;
          sec_int = trunc seconds;
          sec_frac = round_half_even (fmul (fsub seconds (int_as_float sec_int)) 1000);
          (sec_frac, sec_int, deg_str, min_str) =
            (if sec_frac = 1000
             then (let sec_frac = 0; sec_int = sec_int + 1
                   in if 60 \<le> sec_int
                      then (let sec_int = 0; minute = minute + 1
                            in if 60 \<le> minute
                               then (let minute = 0; deg = deg + 1
                                     in (sec_frac, sec_int, format_d 3 deg, format_d 2 minute))
                               else (sec_frac, sec_int, deg_str, min_str))
                      else (sec_frac, sec_int, deg_str, min_str))
             else (sec_frac, sec_int, deg_str, min_str));
          sec_str = format_d 2 sec_int @ ''.'' @ format_d 3 sec_frac
      in hem @ deg_str @ ''.'' @ min_str @ ''.'' @ sec_str)"

definition hemisphere :: "pyfloat \<Rightarrow> bool \<Rightarrow> string" where
  "hemisphere value is_lat =
     (if is_lat then (if fge0 value then ''N'' else ''S'')
      else (if fge0 value then ''E'' else ''W''))"

definition decimal_to_dms_hem :: "pyfloat \<Rightarrow> bool \<Rightarrow> error + string" where
  "decimal_to_dms_hem value is_lat =
     (let hem = hemisphere value is_lat
      in case fabs value of
           Finite v \<Rightarrow> (let (deg, minute, seconds) = dms_fields v
                        in Inr (dms_text hem deg minute seconds))
         | NegZero \<Rightarrow> (let (deg, minute, seconds) = dms_fields 0
                       in Inr (dms_text hem deg minute seconds))
         | PosInf \<Rightarrow> Inl Int_Of_Infinity
         | NegInf \<Rightarrow> Inl Int_Of_Infinity
         | NaN \<Rightarrow> Inl Int_Of_NaN)"

section \<open>DMS to decimal degrees\<close>

text \<open>
  \<open>s[0].upper()\<close> is only compared with \<open>N\<close>, \<open>S\<close>, \<open>E\<close> and \<open>W\<close>; in the
  Latin-1 range \<open>str.upper\<close> gives one of these for the letter itself and its lower-case
  form only, so the upper-casing of the ASCII letters is all that matters.
\<close>

definition to_upper :: "char \<Rightarrow> char" where
  "to_upper c =
     (case map_of (zip ''abcdefghijklmnopqrstuvwxyz'' ''ABCDEFGHIJKLMNOPQRSTUVWXYZ'') c of
        Some d \<Rightarrow> d
      | None \<Rightarrow> c)"

text \<open>\<open>-x\<close> for a finite float that is not the negative zero.\<close>

definition fneg :: "rat \<Rightarrow> pyfloat" where
  "fneg r = (if r = 0 then NegZero else Finite (- r))"

definition dms_hem_to_decimal :: "string \<Rightarrow> bool \<Rightarrow> error + pyfloat" where
  "dms_hem_to_decimal text is_lat =
     (let s = strip text
      in if length s < 2 then Inl Too_Short
         else let hem = to_upper (s ! 0)
              in if is_lat \<and> hem \<notin> {CHR ''N'', CHR ''S''} then Inl Bad_Hemisphere
                 else if \<not> is_lat \<and> hem \<notin> {CHR ''E'', CHR ''W''} then Inl Bad_Hemisphere
                 else let rest = drop 1 s; parts = split_on (CHR ''.'') rest
                      in if length parts \<noteq> 4 then Inl Bad_Shape
                         else case (py_int (parts ! 0), py_int (parts ! 1),
                                    py_int (parts ! 2), py_int (parts ! 3)) of
                                (Some deg, Some minute, Some sec, Some msec) \<Rightarrow>
                                  if \<not> (0 \<le> minute \<and> minute < 60) then Inl Minutes_Range
                                  else if \<not> (0 \<le> sec \<and> sec < 60) then Inl Seconds_Range
                                  else if \<not> (0 \<le> msec \<and> msec < 1000) then Inl Millis_Range
                                  else let seconds = fadd (int_as_float sec)
                                                          (fdiv (int_as_float msec) 1000);
                                           m60 = fdiv (int_as_float minute) 60
                                       in (case float_of_int deg of
                                             Inl e \<Rightarrow> Inl e
                                           | Inr d \<Rightarrow>
                                               let dec = fadd (fadd d m60) (fdiv seconds 3600)
                                               in Inr (if hem \<in> {CHR ''S'', CHR ''W''}
                                                       then fneg dec else Finite dec))
                              | _ \<Rightarrow> Inl Non_Numeric)"

text \<open>
  \<open>f"{value:.{places}f}"\<close>: the exact value of the float, rounded half to even to
  \<open>places\<close> decimals; the sign is that of the float. A negative \<open>places\<close> is a
  \<open>ValueError\<close>.
\<close>

definition fixed_digits :: "bool \<Rightarrow> rat \<Rightarrow> nat \<Rightarrow> string" where
  "fixed_digits neg m places =
     (let n = round_half_even (m * 10 ^ places)
      in (if neg then ''-'' else []) @ digits_of (n div 10 ^ places) @
         (if places = 0 then [] else ''.'' @ zero_pad places (digits_of (n mod 10 ^ places))))"

definition format_decimal :: "pyfloat \<Rightarrow> int \<Rightarrow> error + string" where
  "format_decimal value places =
     (if places < 0 then Inl Bad_Precision
      else case value of
             Finite r \<Rightarrow> Inr (fixed_digits (r < 0) \<bar>r\<bar> (nat places))
           | NegZero \<Rightarrow> Inr (fixed_digits True 0 (nat places))
           | PosInf \<Rightarrow> Inr ''inf''
           | NegInf \<Rightarrow> Inr ''-inf''
           | NaN \<Rightarrow> Inr ''nan'')"

section \<open>The runway transcoder, convert.py\<close>

text \<open>The body of the loop of \<open>convert_record_line\<close> for one coordinate field.\<close>

definition convert_field :: "bool \<Rightarrow> int \<Rightarrow> bool \<Rightarrow> string \<Rightarrow> error + string" where
  "convert_field reverse decimal_places is_lat raw =
     (if reverse
      then (case dms_hem_to_decimal raw is_lat of
              Inl e \<Rightarrow> Inl e
            | Inr dec \<Rightarrow> format_decimal dec decimal_places)
      else (case py_float raw of
              None \<Rightarrow> Inl Float_Syntax
            | Some dec \<Rightarrow> decimal_to_dms_hem dec is_lat))"

text \<open>
  The loop \<open>for j, idx in enumerate(range(2, 10))\<close>, over the pairs \<open>(j, idx)\<close> that
  are left, with the list \<open>out\<close> built so far.
\<close>

fun convert_fields ::
  "bool \<Rightarrow> int \<Rightarrow> string list \<Rightarrow> (nat \<times> nat) list \<Rightarrow> string list \<Rightarrow> error + string list"
where
  "convert_fields reverse decimal_places parts [] out = Inr out"
| "convert_fields reverse decimal_places parts ((j, idx) # js) out =
     (case convert_field reverse decimal_places (j mod 2 = 0) (strip (parts ! idx)) of
        Inl e \<Rightarrow> Inl e
      | Inr t \<Rightarrow> convert_fields reverse decimal_places parts js (out[idx := t]))"

definition convert_record_line :: "string \<Rightarrow> bool \<Rightarrow> int \<Rightarrow> error + string" where
  "convert_record_line line reverse decimal_places =
     (let stripped = strip line
      in if stripped = [] then Inr (rstrip_nl line)
         else let parts = split_on (CHR '':'') stripped
              in if length parts \<notin> {11, 12} then Inl Field_Count
                 else case convert_fields reverse decimal_places parts
                             (zip [0..<8] [2..<10]) parts of
                        Inl e \<Rightarrow> Inl e
                      | Inr out \<Rightarrow> Inr (join '':'' out))"

text \<open>
  The loop of \<open>main\<close> for one input line. The warnings go to the error stream and the
  hint only changes the message of the error, so neither is part of the model.
\<close>

definition runway_line :: "bool \<Rightarrow> bool \<Rightarrow> int \<Rightarrow> string \<Rightarrow> error + string" where
  "runway_line reverse force decimal_places raw =
     (if starts_with_hash (lstrip raw) \<or> strip raw = [] then Inr (rstrip_nl raw)
      else let parts = split_on (CHR '':'') (strip raw)
           in if length parts \<notin> {11, 12} then Inl Field_Count
              else let chosen_reverse =
                         (if \<not> force
                          then (case detect_mode parts of
                                  Some detected \<Rightarrow>
                                    if detected \<noteq> reverse then detected else reverse
                                | None \<Rightarrow> reverse)
                          else reverse)
                   in convert_record_line raw chosen_reverse decimal_places)"

text \<open>A loop that stops at the first exception.\<close>

fun map_lines :: "(string \<Rightarrow> error + string) \<Rightarrow> string list \<Rightarrow> error + string list" where
  "map_lines f [] = Inr []"
| "map_lines f (l # ls) =
     (case f l of
        Inl e \<Rightarrow> Inl e
      | Inr t \<Rightarrow> (case map_lines f ls of Inl e \<Rightarrow> Inl e | Inr ts \<Rightarrow> Inr (t # ts)))"

text \<open>\<open>"\n".join(out_lines) + ("\n" if out_lines else "")\<close>.\<close>

definition output_text :: "string list \<Rightarrow> string" where
  "output_text out_lines =
     join [CHR 0x0A] out_lines @ (if out_lines \<noteq> [] then [CHR 0x0A] else [])"

definition runway_main :: "bool \<Rightarrow> bool \<Rightarrow> int \<Rightarrow> string list \<Rightarrow> error + string" where
  "runway_main reverse force decimal_places lines =
     (case map_lines (runway_line reverse force decimal_places) lines of
        Inl e \<Rightarrow> Inl e
      | Inr out_lines \<Rightarrow> Inr (output_text out_lines))"

section \<open>The generic transcoder, convert-coordinates.py\<close>

fun convert_pairs :: "string list \<Rightarrow> error + string list" where
  "convert_pairs (lat_s # lon_s # ts) =
     (case (py_float (strip lat_s), py_float (strip lon_s)) of
        (Some lat, Some lon) \<Rightarrow>
          (case decimal_to_dms_hem lat True of
             Inl e \<Rightarrow> Inl e
           | Inr a \<Rightarrow>
               (case decimal_to_dms_hem lon False of
                  Inl e \<Rightarrow> Inl e
                | Inr b \<Rightarrow>
                    (case convert_pairs ts of
                       Inl e \<Rightarrow> Inl e
                     | Inr r \<Rightarrow> Inr (a # b # r))))
      | _ \<Rightarrow> Inl Non_Numeric)"
| "convert_pairs ts = Inr []"

definition convert_line :: "string \<Rightarrow> error + string" where
  "convert_line line =
     (let stripped = strip line
      in if stripped = [] then Inr []
         else if starts_with_hash stripped then Inr []
         else let parts = split_on (CHR '':'') stripped
              in if length parts < 5 then Inl Field_Count
                 else let head = take 2 parts; tail = last parts;
                          coord_fields = butlast (drop 2 parts)
                      in if length coord_fields mod 2 \<noteq> 0 then Inl Odd_Coordinates
                         else case convert_pairs coord_fields of
                                Inl e \<Rightarrow> Inl e
                              | Inr out_coords \<Rightarrow>
                                  Inr (join '':'' (head @ out_coords @ [tail])))"

definition generic_main :: "string list \<Rightarrow> error + string" where
  "generic_main lines =
     (case map_lines convert_line lines of
        Inl e \<Rightarrow> Inl e
      | Inr converted \<Rightarrow> Inr (output_text (filter (\<lambda>c. c \<noteq> []) converted)))"

text \<open>Whether \<open>float(s)\<close> accepts the text, without computing the value.\<close>

definition float_syntax_ok :: "string \<Rightarrow> bool" where
  "float_syntax_ok s =
     (case drop_underscores (strip s) of
        None \<Rightarrow> False
      | Some t \<Rightarrow>
          (let (neg, body) = take_sign t; low = map to_lower body
           in low = ''inf'' \<or> low = ''infinity'' \<or> low = ''nan'' \<or> parse_decimal body \<noteq> None))"

section \<open>Evaluation rules\<close>

text \<open>
  Rules that let the simplifier compute the functions above on literals: floor and ceiling
  of a fraction of numerals, and the bit length of a numeral.
\<close>

lemma floor_rat_numeral [simp]:
  "\<lfloor>numeral a / numeral b :: rat\<rfloor> = numeral a div numeral b"
  by (metis floor_divide_of_int_eq of_int_numeral)

lemma ceiling_rat_numeral [simp]:
  "\<lceil>numeral a / numeral b :: rat\<rceil> = - (- numeral a div numeral b)"
  by (metis ceiling_def floor_divide_of_int_eq minus_divide_left of_int_minus of_int_numeral)

lemma bit_length_numeral:
  "bit_length 0 = 0" "bit_length 1 = 1"
  "bit_length (numeral (Num.Bit0 n)) = Suc (bit_length (numeral n))"
  "bit_length (numeral (Num.Bit1 n)) = Suc (bit_length (numeral n))"
  "bit_length (- numeral n) = 0"
proof -
  show "bit_length 0 = 0" "bit_length 1 = 1" "bit_length (- numeral n) = 0"
    by (simp_all add: bit_length.simps)
  have "numeral (Num.Bit0 n) div (2::int) = numeral n" by simp
  then show "bit_length (numeral (Num.Bit0 n)) = Suc (bit_length (numeral n))"
    by (subst bit_length.simps) simp
  have "numeral (Num.Bit1 n) div (2::int) = numeral n" by simp
  then show "bit_length (numeral (Num.Bit1 n)) = Suc (bit_length (numeral n))"
    by (subst bit_length.simps) simp
qed

lemmas text_eval = strip_def lstrip_def rstrip_def is_space_def is_digit_def digit_val_def
  int_of_digits_def to_lower_def drop_underscores_def py_int_def parse_exponent_def
  parse_decimal_def py_float_def to_float_def Let_def

lemmas float_eval = make_float_def fl_def ilog2_def bit_length_numeral round_half_even_def
  power_int_minus_divide Let_def

section \<open>Properties of the format detector\<close>

lemma filter_all_length: "length (filter P xs) = length xs \<longleftrightarrow> list_all P xs"
  by (metis Ball_set filter_id_conv length_filter_less less_irrefl_nat)

lemma filter_none_length: "length (filter P xs) = 0 \<longleftrightarrow> list_all (\<lambda>x. \<not> P x) xs"
  by (simp add: list_all_iff filter_empty_conv)

lemma py_float_decimal:
  assumes "drop_underscores (strip s) = Some t" and "take_sign t = (neg, body)"
    and "parse_decimal body = Some (m, ex)"
  shows "py_float s \<noteq> None"
  using assms by (simp add: py_float_def Let_def)

text \<open>
  C4. With eight coordinate tokens, \<open>detect_mode\<close> answers reverse when all eight
  match the DMS pattern and none parses as a float, forward when all eight parse as floats
  and none matches the pattern; in every other case the category that strictly outnumbers
  the other with at least four hits wins, and without such a category the answer is
  \<open>None\<close>. Five DMS and three decimal tokens give reverse, four and four give \<open>None\<close>.
\<close>

theorem detect_mode_classification:
  assumes "length (coord_fields parts) = 8"
  shows "(list_all looks_like_dms (coord_fields parts) \<and>
          list_all (\<lambda>s. \<not> looks_like_decimal s) (coord_fields parts)
            \<longrightarrow> detect_mode parts = Some True)
       \<and> (list_all looks_like_decimal (coord_fields parts) \<and>
          list_all (\<lambda>s. \<not> looks_like_dms s) (coord_fields parts)
            \<longrightarrow> detect_mode parts = Some False)
       \<and> (\<not> (list_all looks_like_dms (coord_fields parts) \<and>
              list_all (\<lambda>s. \<not> looks_like_decimal s) (coord_fields parts)) \<and>
          \<not> (list_all looks_like_decimal (coord_fields parts) \<and>
              list_all (\<lambda>s. \<not> looks_like_dms s) (coord_fields parts))
            \<longrightarrow> detect_mode parts =
                 (if dec_hits parts < dms_hits parts \<and> 4 \<le> dms_hits parts then Some True
                  else if dms_hits parts < dec_hits parts \<and> 4 \<le> dec_hits parts then Some False
                  else None))
       \<and> (dms_hits parts = 5 \<and> dec_hits parts = 3 \<longrightarrow> detect_mode parts = Some True)
       \<and> (dms_hits parts = 4 \<and> dec_hits parts = 4 \<longrightarrow> detect_mode parts = None)"
proof -
  have d8: "dms_hits parts = 8 \<longleftrightarrow> list_all looks_like_dms (coord_fields parts)"
    unfolding dms_hits_def
    using assms filter_all_length [of looks_like_dms "coord_fields parts"] by simp
  have f8: "dec_hits parts = 8 \<longleftrightarrow> list_all looks_like_decimal (coord_fields parts)"
    unfolding dec_hits_def
    using assms filter_all_length [of looks_like_decimal "coord_fields parts"] by simp
  have d0: "dms_hits parts = 0 \<longleftrightarrow> list_all (\<lambda>s. \<not> looks_like_dms s) (coord_fields parts)"
    unfolding dms_hits_def by (rule filter_none_length)
  have f0: "dec_hits parts = 0 \<longleftrightarrow> list_all (\<lambda>s. \<not> looks_like_decimal s) (coord_fields parts)"
    unfolding dec_hits_def by (rule filter_none_length)
  show ?thesis
    unfolding d8 [symmetric] f8 [symmetric] d0 [symmetric] f0 [symmetric]
    by (simp add: detect_mode_def)
qed

lemma sample_tokens:
  "looks_like_dms ''N050.54.03.056''" "looks_like_dms ''E004.28.32.468''"
  "\<not> looks_like_decimal ''N050.54.03.056''" "\<not> looks_like_decimal ''E004.28.32.468''"
  "looks_like_decimal ''50.9008489''" "looks_like_decimal ''4.4756856''"
  "\<not> looks_like_dms ''50.9008489''" "\<not> looks_like_dms ''4.4756856''"
proof -
  show "looks_like_dms ''N050.54.03.056''" "looks_like_dms ''E004.28.32.468''"
    "\<not> looks_like_decimal ''N050.54.03.056''" "\<not> looks_like_decimal ''E004.28.32.468''"
    "\<not> looks_like_dms ''50.9008489''" "\<not> looks_like_dms ''4.4756856''"
    by code_simp+
  have s1: "strip ''50.9008489'' = ''50.9008489''" and s2: "strip ''4.4756856'' = ''4.4756856''"
    by code_simp+
  have a1: "drop_underscores (strip ''50.9008489'') = Some ''50.9008489''"
    and a2: "take_sign ''50.9008489'' = (False, ''50.9008489'')"
    and a3: "parse_decimal ''50.9008489'' = Some (509008489, - 7)"
    by code_simp+
  show "looks_like_decimal ''50.9008489''"
    unfolding looks_like_decimal_def s1 by (rule py_float_decimal [OF a1 a2 a3])
  have b1: "drop_underscores (strip ''4.4756856'') = Some ''4.4756856''"
    and b2: "take_sign ''4.4756856'' = (False, ''4.4756856'')"
    and b3: "parse_decimal ''4.4756856'' = Some (44756856, - 7)"
    by code_simp+
  show "looks_like_decimal ''4.4756856''"
    unfolding looks_like_decimal_def s2 by (rule py_float_decimal [OF b1 b2 b3])
qed

theorem detect_mode_classification_witness:
  "detect_mode [''EBBR'', ''25R'', ''N050.54.03.056'', ''E004.28.32.468'', ''N050.54.03.056'',
                ''E004.28.32.468'', ''N050.54.03.056'', ''E004.28.32.468'', ''N050.54.03.056'',
                ''E004.28.32.468'', ''12''] = Some True
 \<and> detect_mode [''EBBR'', ''25R'', ''50.9008489'', ''4.4756856'', ''50.9008489'',
                ''4.4756856'', ''50.9008489'', ''4.4756856'', ''50.9008489'',
                ''4.4756856'', ''12''] = Some False
 \<and> detect_mode [''EBBR'', ''25R'', ''N050.54.03.056'', ''E004.28.32.468'', ''N050.54.03.056'',
                ''E004.28.32.468'', ''N050.54.03.056'', ''4.4756856'', ''50.9008489'',
                ''4.4756856'', ''12''] = Some True
 \<and> detect_mode [''EBBR'', ''25R'', ''N050.54.03.056'', ''E004.28.32.468'', ''N050.54.03.056'',
                ''E004.28.32.468'', ''50.9008489'', ''4.4756856'', ''50.9008489'',
                ''4.4756856'', ''12''] = None"
proof -
  let ?a = "[''EBBR'', ''25R'', ''N050.54.03.056'', ''E004.28.32.468'', ''N050.54.03.056'',
                ''E004.28.32.468'', ''N050.54.03.056'', ''E004.28.32.468'', ''N050.54.03.056'',
                ''E004.28.32.468'', ''12'']"
  let ?b = "[''EBBR'', ''25R'', ''50.9008489'', ''4.4756856'', ''50.9008489'',
                ''4.4756856'', ''50.9008489'', ''4.4756856'', ''50.9008489'',
                ''4.4756856'', ''12'']"
  let ?c = "[''EBBR'', ''25R'', ''N050.54.03.056'', ''E004.28.32.468'', ''N050.54.03.056'',
                ''E004.28.32.468'', ''N050.54.03.056'', ''4.4756856'', ''50.9008489'',
                ''4.4756856'', ''12'']"
  let ?d = "[''EBBR'', ''25R'', ''N050.54.03.056'', ''E004.28.32.468'', ''N050.54.03.056'',
                ''E004.28.32.468'', ''50.9008489'', ''4.4756856'', ''50.9008489'',
                ''4.4756856'', ''12'']"
  have la: "length (coord_fields ?a) = 8" by (simp add: coord_fields_def)
  have lb: "length (coord_fields ?b) = 8" by (simp add: coord_fields_def)
  have lc: "length (coord_fields ?c) = 8" by (simp add: coord_fields_def)
  have ld: "length (coord_fields ?d) = 8" by (simp add: coord_fields_def)
  have a: "list_all looks_like_dms (coord_fields ?a) \<and>
          list_all (\<lambda>s. \<not> looks_like_decimal s) (coord_fields ?a)"
    by (simp add: coord_fields_def sample_tokens)
  have b: "list_all looks_like_decimal (coord_fields ?b) \<and>
          list_all (\<lambda>s. \<not> looks_like_dms s) (coord_fields ?b)"
    by (simp add: coord_fields_def sample_tokens)
  have c: "dms_hits ?c = 5 \<and> dec_hits ?c = 3"
    by (simp add: dms_hits_def dec_hits_def coord_fields_def sample_tokens)
  have d: "dms_hits ?d = 4 \<and> dec_hits ?d = 4"
    by (simp add: dms_hits_def dec_hits_def coord_fields_def sample_tokens)
  have ra: "detect_mode ?a = Some True"
    by (rule mp [OF conjunct1 [OF detect_mode_classification [OF la]] a])
  have rb: "detect_mode ?b = Some False"
    by (rule mp [OF conjunct1 [OF conjunct2 [OF detect_mode_classification [OF lb]]] b])
  have rc: "detect_mode ?c = Some True"
    by (rule mp [OF conjunct1 [OF conjunct2 [OF conjunct2 [OF conjunct2
          [OF detect_mode_classification [OF lc]]]]] c])
  have rd: "detect_mode ?d = None"
    by (rule mp [OF conjunct2 [OF conjunct2 [OF conjunct2 [OF conjunct2
          [OF detect_mode_classification [OF ld]]]]] d])
  show ?thesis
    using ra rb rc rd by (intro conjI)
qed

section \<open>Properties of the GeoJSON parser\<close>

lemma coord_pairs_spec:
  "coord_pairs ts = Inr pts \<Longrightarrow> even (length ts) \<Longrightarrow>
     2 * length pts = length ts \<and>
     (\<forall>i<length pts. to_float (ts ! (2 * i)) = Some (snd (pts ! i)) \<and>
                      to_float (ts ! (2 * i + 1)) = Some (fst (pts ! i)))"
proof (induction ts arbitrary: pts rule: coord_pairs.induct)
  case (1 a b ts)
  from "1.prems"(1) obtain lat lon cs where
    a: "to_float a = Some lat" and b: "to_float b = Some lon"
    and cs: "coord_pairs ts = Inr cs" and pts: "pts = (lon, lat) # cs"
    by (auto split: option.splits sum.splits)
  from "1.prems"(2) have ev: "even (length ts)" by simp
  from "1.IH" [OF a b cs ev] have ih: "2 * length cs = length ts"
    "\<And>i. i < length cs \<Longrightarrow> to_float (ts ! (2 * i)) = Some (snd (cs ! i)) \<and>
                      to_float (ts ! (2 * i + 1)) = Some (fst (cs ! i))"
    by auto
  show ?case
  proof (intro conjI allI impI)
    show "2 * length pts = length (a # b # ts)" using ih(1) pts by simp
  next
    fix i assume "i < length pts"
    then show "to_float ((a # b # ts) ! (2 * i)) = Some (snd (pts ! i))"
      using ih(2) a pts by (cases i) auto
  next
    fix i assume "i < length pts"
    then show "to_float ((a # b # ts) ! (2 * i + 1)) = Some (fst (pts ! i))"
      using ih(2) b pts by (cases i) auto
  qed
qed simp_all

lemma parse_line_SomeD:
  assumes "parse_line line = Inr (Some f)"
  shows "4 \<le> length (coord_tokens_of line) \<and> even (length (coord_tokens_of line)) \<and>
         (\<exists>pts. coord_pairs (coord_tokens_of line) = Inr pts \<and> geometry f = choose_geometry pts)"
  using assms
  unfolding parse_line_def coord_tokens_of_def line_rest_def line_parts_def Let_def
  by (auto split: if_splits prod.splits sum.splits)

text \<open>
  C8. A line that \<open>parse_line\<close> accepts yields the points of its coordinate tokens,
  each as \<open>(lon, lat)\<close> and in input order; four points give a Polygon whose single ring
  has five entries, the first point repeated at the end, two points give a LineString of
  two entries, and every count other than four gives a LineString over all the points.
\<close>

theorem parse_line_geometry:
  assumes "parse_line line = Inr (Some f)"
  shows "\<exists>pts. coord_pairs (coord_tokens_of line) = Inr pts \<and>
           2 * length pts = length (coord_tokens_of line) \<and>
           (\<forall>i<length pts.
              to_float (coord_tokens_of line ! (2 * i)) = Some (snd (pts ! i)) \<and>
              to_float (coord_tokens_of line ! (2 * i + 1)) = Some (fst (pts ! i))) \<and>
           (length pts = 4 \<longrightarrow>
              geometry f = Polygon [pts @ [pts ! 0]] \<and> length (pts @ [pts ! 0]) = 5) \<and>
           (length pts = 2 \<longrightarrow> geometry f = LineString pts) \<and>
           (length pts \<noteq> 4 \<longrightarrow> geometry f = LineString pts)"
proof -
  from parse_line_SomeD [OF assms] obtain pts where
    ev: "even (length (coord_tokens_of line))"
    and cp: "coord_pairs (coord_tokens_of line) = Inr pts"
    and g: "geometry f = choose_geometry pts"
    by blast
  from coord_pairs_spec [OF cp ev] g cp show ?thesis
    by (intro exI [of _ pts]) (simp add: choose_geometry_def)
qed


lemma convert_from_append:
  "convert_from n (xs @ ys) =
     (case convert_from n xs of
        Inl e \<Rightarrow> Inl e
      | Inr fs \<Rightarrow> (case convert_from (n + length xs) ys of
                     Inl e \<Rightarrow> Inl e
                   | Inr gs \<Rightarrow> Inr (fs @ gs)))"
  by (induction xs arbitrary: n) (auto split: sum.splits option.splits)

lemma line_rest_empty_iff:
  assumes "3 \<le> length (line_parts line)"
  shows "line_rest line = [] \<longleftrightarrow>
           length (line_parts line) = 3 \<and> CHR '','' \<in> set (line_parts line ! 2)"
proof -
  let ?r = "drop 2 (line_parts line)"
  have ne: "?r \<noteq> []" using assms by simp
  have l3: "length (line_parts line) = 3 \<Longrightarrow> last ?r = line_parts line ! 2"
    by (simp add: last_conv_nth)
  have "length (butlast ?r) = length (line_parts line) - 3" by simp
  then have b: "butlast ?r = [] \<longleftrightarrow> length (line_parts line) = 3"
    using assms by (metis diff_is_0_eq le_antisym length_0_conv list.size(3) order_refl)
  show ?thesis
    using ne b l3 unfolding line_rest_def split_remarks_def by auto
qed

text \<open>
  C10. A line that is neither blank nor a comment is skipped by \<open>parse_line\<close>, which
  returns \<open>None\<close>, when it has fewer than three fields or when nothing is left once the
  comma-bearing remarks field is taken off (three fields, the third with a comma); the line
  then adds no feature and no error to the result of \<open>convert_file\<close>. A line with at
  least a taxitime field whose coordinate tokens are fewer than four or odd in number
  raises the token-count error.
\<close>

theorem parse_line_skips:
  assumes "strip line \<noteq> []" and "\<not> starts_with_hash (strip line)"
  shows "(length (line_parts line) < 3 \<longrightarrow> parse_line line = Inr None)
       \<and> (3 \<le> length (line_parts line) \<and> line_rest line = [] \<longrightarrow> parse_line line = Inr None)
       \<and> (length (line_parts line) = 3 \<and> CHR '','' \<in> set (line_parts line ! 2)
            \<longrightarrow> parse_line line = Inr None)
       \<and> (3 \<le> length (line_parts line) \<and> line_rest line \<noteq> [] \<and>
          (length (coord_tokens_of line) < 4 \<or> odd (length (coord_tokens_of line)))
            \<longrightarrow> parse_line line = Inl Bad_Token_Count)
       \<and> (parse_line line = Inr None \<longrightarrow>
            (\<forall>n pre post. convert_from n (pre @ line # post) =
               (case convert_from n pre of
                  Inl e \<Rightarrow> Inl e
                | Inr fs \<Rightarrow> (case convert_from (Suc (n + length pre)) post of
                               Inl e \<Rightarrow> Inl e
                             | Inr gs \<Rightarrow> Inr (fs @ gs)))))"
proof (intro conjI impI)
  show "parse_line line = Inr None" if "length (line_parts line) < 3"
    using that assms by (simp add: parse_line_def line_parts_def Let_def)
  show r: "parse_line line = Inr None"
    if "3 \<le> length (line_parts line) \<and> line_rest line = []"
    using that assms
    by (auto simp: parse_line_def line_parts_def line_rest_def Let_def split: prod.splits)
  show "parse_line line = Inr None"
    if "length (line_parts line) = 3 \<and> CHR '','' \<in> set (line_parts line ! 2)"
    using that line_rest_empty_iff [of line] r by simp
  show "parse_line line = Inl Bad_Token_Count"
    if "3 \<le> length (line_parts line) \<and> line_rest line \<noteq> [] \<and>
          (length (coord_tokens_of line) < 4 \<or> odd (length (coord_tokens_of line)))"
    using that assms
    by (auto simp: parse_line_def line_parts_def line_rest_def coord_tokens_of_def Let_def
        split: prod.splits)
  show "\<forall>n pre post. convert_from n (pre @ line # post) =
               (case convert_from n pre of
                  Inl e \<Rightarrow> Inl e
                | Inr fs \<Rightarrow> (case convert_from (Suc (n + length pre)) post of
                               Inl e \<Rightarrow> Inl e
                             | Inr gs \<Rightarrow> Inr (fs @ gs)))"
    if "parse_line line = Inr None"
    using that by (simp add: convert_from_append split: sum.splits)
qed

lemmas geojson_eval = parse_line_def split_remarks_def starts_with_hash_def
  parse_taxitime_def choose_geometry_def line_parts_def line_rest_def coord_tokens_of_def

theorem parse_line_skips_witness:
  "parse_line ''ELLX:24'' = Inr None
 \<and> parse_line ''ELLX:24:REM1,REM2'' = Inr None
 \<and> parse_line ''ELLX:24:49.1:6.2:12'' = Inl Bad_Token_Count
 \<and> parse_line ''ELLX:24:49.1:6.2:49.3:12'' = Inl Bad_Token_Count
 \<and> convert_from 1 [''ELLX:24:49.1:6.2:49.3:6.4:12'', ''ELLX:24'', ''ELLX:24:49.1:6.2:49.3:6.4:12'']
    = (case convert_from 1 [''ELLX:24:49.1:6.2:49.3:6.4:12''] of
         Inl e \<Rightarrow> Inl e
       | Inr fs \<Rightarrow> (case convert_from 3 [''ELLX:24:49.1:6.2:49.3:6.4:12''] of
                      Inl e \<Rightarrow> Inl e
                    | Inr gs \<Rightarrow> Inr (fs @ gs)))"
proof -
  have s: "strip ''ELLX:24'' \<noteq> [] \<and> \<not> starts_with_hash (strip ''ELLX:24'')"
    "strip ''ELLX:24:REM1,REM2'' \<noteq> [] \<and> \<not> starts_with_hash (strip ''ELLX:24:REM1,REM2'')"
    "strip ''ELLX:24:49.1:6.2:12'' \<noteq> [] \<and> \<not> starts_with_hash (strip ''ELLX:24:49.1:6.2:12'')"
    "strip ''ELLX:24:49.1:6.2:49.3:12'' \<noteq> [] \<and>
       \<not> starts_with_hash (strip ''ELLX:24:49.1:6.2:49.3:12'')"
    by (simp_all add: text_eval starts_with_hash_def)
  have a: "length (line_parts ''ELLX:24'') < 3"
    by (simp add: line_parts_def text_eval)
  have b: "length (line_parts ''ELLX:24:REM1,REM2'') = 3 \<and>
           CHR '','' \<in> set (line_parts ''ELLX:24:REM1,REM2'' ! 2)"
    by (simp add: line_parts_def text_eval)
  have c: "3 \<le> length (line_parts ''ELLX:24:49.1:6.2:12'') \<and>
           line_rest ''ELLX:24:49.1:6.2:12'' \<noteq> [] \<and>
           (length (coord_tokens_of ''ELLX:24:49.1:6.2:12'') < 4 \<or>
            odd (length (coord_tokens_of ''ELLX:24:49.1:6.2:12'')))"
    by (simp add: geojson_eval text_eval)
  have d: "3 \<le> length (line_parts ''ELLX:24:49.1:6.2:49.3:12'') \<and>
           line_rest ''ELLX:24:49.1:6.2:49.3:12'' \<noteq> [] \<and>
           (length (coord_tokens_of ''ELLX:24:49.1:6.2:49.3:12'') < 4 \<or>
            odd (length (coord_tokens_of ''ELLX:24:49.1:6.2:49.3:12'')))"
    by (simp add: geojson_eval text_eval)
  note A = parse_line_skips [OF conjunct1 [OF s(1)] conjunct2 [OF s(1)]]
  note B = parse_line_skips [OF conjunct1 [OF s(2)] conjunct2 [OF s(2)]]
  note C = parse_line_skips [OF conjunct1 [OF s(3)] conjunct2 [OF s(3)]]
  note D = parse_line_skips [OF conjunct1 [OF s(4)] conjunct2 [OF s(4)]]
  have ra: "parse_line ''ELLX:24'' = Inr None"
    by (rule mp [OF conjunct1 [OF A] a])
  have rb: "parse_line ''ELLX:24:REM1,REM2'' = Inr None"
    by (rule mp [OF conjunct1 [OF conjunct2 [OF conjunct2 [OF B]]] b])
  have rc: "parse_line ''ELLX:24:49.1:6.2:12'' = Inl Bad_Token_Count"
    by (rule mp [OF conjunct1 [OF conjunct2 [OF conjunct2 [OF conjunct2 [OF C]]]] c])
  have rd: "parse_line ''ELLX:24:49.1:6.2:49.3:12'' = Inl Bad_Token_Count"
    by (rule mp [OF conjunct1 [OF conjunct2 [OF conjunct2 [OF conjunct2 [OF D]]]] d])
  have re: "\<forall>n pre post. convert_from n (pre @ ''ELLX:24'' # post) =
               (case convert_from n pre of
                  Inl e \<Rightarrow> Inl e
                | Inr fs \<Rightarrow> (case convert_from (Suc (n + length pre)) post of
                               Inl e \<Rightarrow> Inl e
                             | Inr gs \<Rightarrow> Inr (fs @ gs)))"
    by (rule mp [OF conjunct2 [OF conjunct2 [OF conjunct2 [OF conjunct2 [OF A]]]] ra])
  have rf: "convert_from 1 ([''ELLX:24:49.1:6.2:49.3:6.4:12''] @ ''ELLX:24'' #
                [''ELLX:24:49.1:6.2:49.3:6.4:12''])
    = (case convert_from 1 [''ELLX:24:49.1:6.2:49.3:6.4:12''] of
         Inl e \<Rightarrow> Inl e
       | Inr fs \<Rightarrow> (case convert_from (Suc (1 + length [''ELLX:24:49.1:6.2:49.3:6.4:12''])) 
                         [''ELLX:24:49.1:6.2:49.3:6.4:12''] of
                      Inl e \<Rightarrow> Inl e
                    | Inr gs \<Rightarrow> Inr (fs @ gs)))"
    using re by blast
  have n3: "Suc (1 + length [''ELLX:24:49.1:6.2:49.3:6.4:12'']) = 3" by simp
  show ?thesis
    using ra rb rc rd rf unfolding n3 by simp
qed

lemma py_float_defined_iff: "py_float s \<noteq> None \<longleftrightarrow> float_syntax_ok s"
  by (auto simp: py_float_def float_syntax_ok_def Let_def split: option.splits prod.splits)

lemma looks_like_decimal_iff: "looks_like_decimal s \<longleftrightarrow> float_syntax_ok (strip s)"
  unfolding looks_like_decimal_def by (rule py_float_defined_iff)

lemma coord_pairs_succeeds:
  "list_all looks_like_decimal ts \<Longrightarrow> \<exists>pts. coord_pairs ts = Inr pts"
proof (induction ts rule: coord_pairs.induct)
  case (1 a b ts)
  from "1.prems" obtain lat lon where
    a: "to_float a = Some lat" and b: "to_float b = Some lon"
    by (auto simp: looks_like_decimal_def to_float_def)
  from "1.prems" have "list_all looks_like_decimal ts" by simp
  from "1.IH" [OF a b this] obtain cs where "coord_pairs ts = Inr cs" ..
  with a b show ?case by simp
qed simp_all

lemma parse_line_succeeds:
  assumes "strip line \<noteq> []" and "\<not> starts_with_hash (strip line)"
    and "3 \<le> length (line_parts line)" and "line_rest line \<noteq> []"
    and "4 \<le> length (coord_tokens_of line)" and "even (length (coord_tokens_of line))"
    and "list_all looks_like_decimal (coord_tokens_of line)"
  shows "\<exists>f. parse_line line = Inr (Some f)"
proof -
  from coord_pairs_succeeds [OF assms(7)] obtain pts where
    "coord_pairs (coord_tokens_of line) = Inr pts" ..
  with assms(1-6) show ?thesis
    by (auto simp: parse_line_def line_parts_def line_rest_def coord_tokens_of_def Let_def
        split: prod.splits)
qed

theorem parse_line_geometry_witness:
  "(\<exists>f pts. parse_line ''EBBR:25R:50.9008:4.4756:50.9019:4.4771:50.9025:4.4765:50.9015:4.475:12:A,B''
              = Inr (Some f) \<and> length pts = 4 \<and> geometry f = Polygon [pts @ [pts ! 0]] \<and>
            length (pts @ [pts ! 0]) = 5)
 \<and> (\<exists>f pts. parse_line ''ELLX:24:49.1:6.2:49.3:6.4:12'' = Inr (Some f) \<and> length pts = 2 \<and>
            geometry f = LineString pts)
 \<and> (\<exists>f pts. parse_line ''ELLX:24:49.1:6.2:49.3:6.4:49.5:6.6:12'' = Inr (Some f) \<and>
            length pts = 3 \<and> geometry f = LineString pts)"
proof -
  let ?A = "''EBBR:25R:50.9008:4.4756:50.9019:4.4771:50.9025:4.4765:50.9015:4.475:12:A,B''"
  let ?B = "''ELLX:24:49.1:6.2:49.3:6.4:12''"
  let ?C = "''ELLX:24:49.1:6.2:49.3:6.4:49.5:6.6:12''"
  have "\<exists>f. parse_line ?A = Inr (Some f)"
    by (rule parse_line_succeeds)
       (simp_all add: geojson_eval looks_like_decimal_iff float_syntax_ok_def text_eval)
  then obtain fa where fa: "parse_line ?A = Inr (Some fa)" ..
  have la: "length (coord_tokens_of ?A) = 8" by (simp add: geojson_eval text_eval)
  have "\<exists>f. parse_line ?B = Inr (Some f)"
    by (rule parse_line_succeeds)
       (simp_all add: geojson_eval looks_like_decimal_iff float_syntax_ok_def text_eval)
  then obtain fb where fb: "parse_line ?B = Inr (Some fb)" ..
  have lb: "length (coord_tokens_of ?B) = 4" by (simp add: geojson_eval text_eval)
  have "\<exists>f. parse_line ?C = Inr (Some f)"
    by (rule parse_line_succeeds)
       (simp_all add: geojson_eval looks_like_decimal_iff float_syntax_ok_def text_eval)
  then obtain fc where fc: "parse_line ?C = Inr (Some fc)" ..
  have lc: "length (coord_tokens_of ?C) = 6" by (simp add: geojson_eval text_eval)
  from parse_line_geometry [OF fa] la fa have a: "\<exists>f pts. parse_line ?A
              = Inr (Some f) \<and> length pts = 4 \<and> geometry f = Polygon [pts @ [pts ! 0]] \<and>
            length (pts @ [pts ! 0]) = 5"
    by (metis (no_types, lifting) mult_2 numeral_Bit0 add_left_cancel
        nat_mult_eq_cancel_disj zero_neq_numeral)
  from parse_line_geometry [OF fb] lb fb have b: "\<exists>f pts. parse_line ?B = Inr (Some f) \<and>
       length pts = 2 \<and> geometry f = LineString pts"
    by force
  from parse_line_geometry [OF fc] lc fc have c: "\<exists>f pts. parse_line ?C = Inr (Some f) \<and>
       length pts = 3 \<and> geometry f = LineString pts"
    by force
  show ?thesis using a b c by (intro conjI)
qed

section \<open>The documented examples\<close>

lemma digits_of_numeral:
  "digits_of 0 = ''0''" "digits_of 1 = ''1''"
  "digits_of (numeral n) =
     (if numeral n < (10::int) then [digit_char (numeral n)]
      else digits_of (numeral n div 10) @ [digit_char (numeral n mod 10)])"
  by (subst digits_of.simps, simp add: digit_char_def)+

lemma Let_value:
  "Let (0::rat) f = f 0" "Let (1::rat) f = f 1" "Let (numeral n :: rat) f = f (numeral n)"
  "Let (numeral n / numeral m :: rat) f = f (numeral n / numeral m)"
  "Let (- (numeral n / numeral m) :: rat) f = f (- (numeral n / numeral m))"
  "Let (- numeral n :: rat) f = f (- numeral n)"
  "Let (0::int) g = g 0" "Let (1::int) g = g 1" "Let (numeral n :: int) g = g (numeral n)"
  "Let (- numeral n :: int) g = g (- numeral n)"
  "Let (a, b) h = h (a, b)" "Let (c # cs) k = k (c # cs)" "Let [] k = k []"
  by (simp_all add: Let_def)

text \<open>
  With \<open>cong: let_weak_cong\<close> these rules evaluate a \<open>let\<close> by value: the bound
  term first, the body once the bound term is a literal.
\<close>

lemmas float_ops = fmul_def fsub_def fadd_def fdiv_def int_as_float_def trunc_def py_round_def

lemmas float_cbv = make_float_def fl_def ilog2_def bit_length_numeral round_half_even_def
  power_int_minus_divide Let_value

lemma replicate_numeral: "replicate (numeral k) x = x # replicate (pred_numeral k) x"
  by (simp add: numeral_eq_Suc)

lemmas format_eval = format_d_def zero_pad_def digits_of_numeral digit_char_def
  replicate_numeral

lemma double_50_9008489:
  "py_float ''50.9008489'' = Some (Finite (1790914407335015 / 35184372088832))"
  by (simp add: text_eval float_eval)

lemma double_4_4756856:
  "py_float ''4.4756856'' = Some (Finite (2519587000048437 / 562949953421312))"
  by (simp add: text_eval float_eval)

lemma fields_50_9008489:
  "dms_fields (1790914407335015 / 35184372088832)
     = (50, 54, 3440750115311059 / 1125899906842624)"
  by (simp add: dms_fields_def float_ops float_cbv cong: let_weak_cong)

lemma fields_4_4756856:
  "dms_fields (2519587000048437 / 562949953421312)
     = (4, 28, 2284732385960395 / 70368744177664)"
  by (simp add: dms_fields_def float_ops float_cbv cong: let_weak_cong)

lemma text_50_9008489:
  "dms_text ''N'' 50 54 (3440750115311059 / 1125899906842624) = ''N050.54.03.056''"
  by (simp add: dms_text_def float_ops float_cbv format_eval cong: let_weak_cong)

lemma text_4_4756856:
  "dms_text ''E'' 4 28 (2284732385960395 / 70368744177664) = ''E004.28.32.468''"
  by (simp add: dms_text_def float_ops float_cbv format_eval cong: let_weak_cong)

lemma dms_50_9008489:
  "decimal_to_dms_hem (Finite (1790914407335015 / 35184372088832)) True
     = Inr ''N050.54.03.056''"
  by (simp add: decimal_to_dms_hem_def hemisphere_def fields_50_9008489 text_50_9008489)

lemma dms_4_4756856:
  "decimal_to_dms_hem (Finite (2519587000048437 / 562949953421312)) False
     = Inr ''E004.28.32.468''"
  by (simp add: decimal_to_dms_hem_def hemisphere_def fields_4_4756856 text_4_4756856)

text \<open>
  C6. The generic transcoder maps \<open>KXYZ:09:50.9008489:4.4756856:TAIL\<close> to
  \<open>KXYZ:09:N050.54.03.056:E004.28.32.468:TAIL\<close>; the double that \<open>float\<close> reads
  from \<open>50.9008489\<close> is converted to \<open>N050.54.03.056\<close> as a latitude, and the double
  read from \<open>4.4756856\<close> to \<open>E004.28.32.468\<close> as a longitude.
\<close>

theorem convert_line_example:
  "convert_line ''KXYZ:09:50.9008489:4.4756856:TAIL''
     = Inr ''KXYZ:09:N050.54.03.056:E004.28.32.468:TAIL''
   \<and> (\<exists>lat. py_float ''50.9008489'' = Some lat \<and>
             decimal_to_dms_hem lat True = Inr ''N050.54.03.056'')
   \<and> (\<exists>lon. py_float ''4.4756856'' = Some lon \<and>
             decimal_to_dms_hem lon False = Inr ''E004.28.32.468'')"
proof (intro conjI)
  have parts: "split_on (CHR '':'') (strip ''KXYZ:09:50.9008489:4.4756856:TAIL'')
                 = [''KXYZ'', ''09'', ''50.9008489'', ''4.4756856'', ''TAIL'']"
    by (simp add: text_eval)
  have s: "strip ''50.9008489'' = ''50.9008489''" "strip ''4.4756856'' = ''4.4756856''"
    "strip ''KXYZ:09:50.9008489:4.4756856:TAIL'' \<noteq> []"
    "\<not> starts_with_hash (strip ''KXYZ:09:50.9008489:4.4756856:TAIL'')"
    by (simp_all add: text_eval starts_with_hash_def)
  have pairs: "convert_pairs [''50.9008489'', ''4.4756856'']
                 = Inr [''N050.54.03.056'', ''E004.28.32.468'']"
    by (simp add: s double_50_9008489 double_4_4756856 dms_50_9008489 dms_4_4756856)
  show "convert_line ''KXYZ:09:50.9008489:4.4756856:TAIL''
     = Inr ''KXYZ:09:N050.54.03.056:E004.28.32.468:TAIL''"
    unfolding convert_line_def Let_def parts using s(3,4)
    by (simp add: pairs del: convert_pairs.simps)
  show "\<exists>lat. py_float ''50.9008489'' = Some lat \<and>
             decimal_to_dms_hem lat True = Inr ''N050.54.03.056''"
    using double_50_9008489 dms_50_9008489 by blast
  show "\<exists>lon. py_float ''4.4756856'' = Some lon \<and>
             decimal_to_dms_hem lon False = Inr ''E004.28.32.468''"
    using double_4_4756856 dms_4_4756856 by blast
qed

end
